theory Spec2Isabelle
  imports Main "HOL-Library.AList" "HOL-Library.Word"
begin

unbundle bit_operations_syntax

section \<open>JavaScript values\<close>

text \<open>
  The documents handed to \<^verbatim>\<open>geojsonifyPlaces\<close> are loosely structured JSON values, so
  they are modelled by one datatype of JavaScript values. A number is an IEEE-754
  double, kept as its 64-bit pattern: the program moves numbers around and tests their
  truthiness, it never computes with them. An object is the list of its own enumerable
  properties in enumeration order: the array indices first, in ascending order, then
  the other keys in the order of their creation. The objects that come out of a JSON
  parser have pairwise distinct keys, and may own a key named \<^verbatim>\<open>__proto__\<close>.
\<close>

datatype jsval =
    JUndefined
  | JNull
  | JBool bool
  | JNum "64 word"
  | JStr string
  | JArr "jsval list"
  | JObj "(string \<times> jsval) list"

type_synonym props = "(string \<times> jsval) list"

text \<open>What a \<^verbatim>\<open>throw\<close> carries: the engine's TypeError for a property read on
  \<^verbatim>\<open>undefined\<close> or \<^verbatim>\<open>null\<close>, or an exception raised inside a collaborator.\<close>

datatype error = TypeError | Thrown string

definition bindE :: "error + 'a \<Rightarrow> ('a \<Rightarrow> error + 'b) \<Rightarrow> error + 'b" where
  "bindE r f = (case r of Inl e \<Rightarrow> Inl e | Inr x \<Rightarrow> f x)"

text \<open>\<^verbatim>\<open>xs.map(f)\<close> and \<^verbatim>\<open>xs.forEach(f)\<close> with a callback that may throw: the
  elements are visited in order and the first exception ends the loop.\<close>

fun mapE :: "('a \<Rightarrow> error + 'b) \<Rightarrow> 'a list \<Rightarrow> error + 'b list" where
  "mapE f [] = Inr []"
| "mapE f (x # xs) = bindE (f x) (\<lambda>y. bindE (mapE f xs) (\<lambda>ys. Inr (y # ys)))"

text \<open>NaN has all exponent bits set and a non-zero fraction.\<close>

definition is_nan :: "64 word \<Rightarrow> bool" where
  "is_nan w \<longleftrightarrow>
     w AND 0x7FF0000000000000 = 0x7FF0000000000000 \<and> w AND 0x000FFFFFFFFFFFFF \<noteq> 0"

text \<open>JavaScript's ToBoolean: \<^verbatim>\<open>undefined\<close>, \<^verbatim>\<open>null\<close>, \<^verbatim>\<open>false\<close>,
  \<^verbatim>\<open>+0\<close>, \<^verbatim>\<open>-0\<close>, \<^verbatim>\<open>NaN\<close> and the empty string are falsy.\<close>

fun truthy :: "jsval \<Rightarrow> bool" where
  "truthy JUndefined = False"
| "truthy JNull = False"
| "truthy (JBool b) = b"
| "truthy (JNum w) = (\<not> (w = 0 \<or> w = 0x8000000000000000 \<or> is_nan w))"
| "truthy (JStr s) = (s \<noteq> [])"
| "truthy (JArr xs) = True"
| "truthy (JObj ps) = True"

text \<open>\<^verbatim>\<open>o[k]\<close> on the property list of an object: a missing key reads as
  \<^verbatim>\<open>undefined\<close>.\<close>

definition lookup :: "props \<Rightarrow> string \<Rightarrow> jsval" where
  "lookup ps k = (case map_of ps k of None \<Rightarrow> JUndefined | Some v \<Rightarrow> v)"

text \<open>The member expression \<^verbatim>\<open>v.k\<close>. It throws a TypeError on \<^verbatim>\<open>undefined\<close> and
  \<^verbatim>\<open>null\<close>. None of the names this program reads (\<^verbatim>\<open>_id\<close>, \<^verbatim>\<open>lat\<close>,
  \<^verbatim>\<open>min_lon\<close>, ...) is a built-in property of a string, number, boolean or array, so
  on those it reads \<^verbatim>\<open>undefined\<close>.\<close>

fun dot :: "jsval \<Rightarrow> string \<Rightarrow> error + jsval" where
  "dot JUndefined k = Inl TypeError"
| "dot JNull k = Inl TypeError"
| "dot (JObj ps) k = Inr (lookup ps k)"
| "dot v k = Inr JUndefined"

text \<open>lodash \<^verbatim>\<open>_.has(v, k)\<close> for a single key: \<^verbatim>\<open>v\<close> is not nullish and has
  \<^verbatim>\<open>k\<close> as an own property. A key that is present with the value
  \<^verbatim>\<open>undefined\<close> or \<^verbatim>\<open>null\<close> counts as present.\<close>

fun has :: "jsval \<Rightarrow> string \<Rightarrow> bool" where
  "has (JObj ps) k = (map_of ps k \<noteq> None)"
| "has v k = False"

text \<open>lodash \<^verbatim>\<open>_.has(v, 'a.b')\<close>: when \<^verbatim>\<open>v\<close> has the literal key
  \<^verbatim>\<open>a.b\<close> the path is that one key; otherwise the path is \<^verbatim>\<open>a\<close> then
  \<^verbatim>\<open>b\<close>, each step an own property of a non-nullish value.\<close>

definition has_path2 :: "jsval \<Rightarrow> string \<Rightarrow> string \<Rightarrow> bool" where
  "has_path2 v a b \<longleftrightarrow>
     has v (a @ ''.'' @ b) \<or>
     (has v a \<and> (case dot v a of Inl e \<Rightarrow> False | Inr w \<Rightarrow> has w b))"

text \<open>lodash \<^verbatim>\<open>_.get(v, k)\<close> for a single key: never throws, \<^verbatim>\<open>undefined\<close> when
  the value is nullish or the key is missing.\<close>

fun lodash_get :: "jsval \<Rightarrow> string \<Rightarrow> jsval" where
  "lodash_get (JObj ps) k = lookup ps k"
| "lodash_get v k = JUndefined"

text \<open>Decimal digits of an array index, for the keys a \<^verbatim>\<open>for ... in\<close> loop sees.\<close>

fun string_of_nat :: "nat \<Rightarrow> string" where
  "string_of_nat n =
     (if n < 10 then [char_of (48 + n)]
      else string_of_nat (n div 10) @ [char_of (48 + n mod 10)])"

text \<open>The (key, value) pairs a \<^verbatim>\<open>for (k in v)\<close> loop visits, with \<^verbatim>\<open>v[k]\<close>:
  the own properties of an object, the indices of an array or of a string, and nothing
  for any other value (the loop over \<^verbatim>\<open>undefined\<close> or \<^verbatim>\<open>null\<close> runs zero
  times and does not throw).\<close>

fun for_in :: "jsval \<Rightarrow> (string \<times> jsval) list" where
  "for_in (JObj ps) = ps"
| "for_in (JArr xs) = zip (map string_of_nat [0..<length xs]) xs"
| "for_in (JStr s) = zip (map string_of_nat [0..<length s]) (map (\<lambda>c. JStr [c]) s)"
| "for_in v = []"

text \<open>An array index is the canonical decimal numeral of a number below
  \<open>2^32 - 1\<close>; an object enumerates such keys before all others.\<close>

definition is_digit :: "char \<Rightarrow> bool" where
  "is_digit c \<longleftrightarrow> c \<in> set ''0123456789''"

definition index_value :: "string \<Rightarrow> nat" where
  "index_value s = foldl (\<lambda>n c. 10 * n + (of_char c - 48)) 0 s"

definition is_index :: "string \<Rightarrow> bool" where
  "is_index s \<longleftrightarrow>
     s \<noteq> [] \<and> list_all is_digit s \<and> (length s = 1 \<or> hd s \<noteq> CHR ''0'')
     \<and> index_value s < 4294967295"

text \<open>A new array index goes after the smaller indices the object already has and
  before everything else.\<close>

fun insert_index :: "string \<Rightarrow> jsval \<Rightarrow> props \<Rightarrow> props" where
  "insert_index k v [] = [(k, v)]"
| "insert_index k v ((k', v') # ps) =
     (if is_index k' \<and> index_value k' < index_value k then (k', v') # insert_index k v ps
      else (k, v) # (k', v') # ps)"

text \<open>The assignment \<^verbatim>\<open>o[k] = v\<close> on a plain object that this program created
  (an object literal). The key \<^verbatim>\<open>__proto__\<close> reaches the setter inherited from
  \<^verbatim>\<open>Object.prototype\<close>: it creates no property (it changes the prototype when
  \<^verbatim>\<open>v\<close> is an object or \<^verbatim>\<open>null\<close>, which the own properties do not show).
  An existing key keeps its place and takes the new value; a new array index is put in
  index order; any other new key goes to the end.\<close>

definition obj_set :: "string \<Rightarrow> jsval \<Rightarrow> props \<Rightarrow> props" where
  "obj_set k v ps =
     (if k = ''__proto__'' then ps
      else if map_of ps k \<noteq> None then AList.update k v ps
      else if is_index k then insert_index k v ps
      else ps @ [(k, v)])"

section \<open>Features and collections\<close>

text \<open>\<^verbatim>\<open>GeoJSON.parse\<close> builds objects of a fixed shape, so they are records. The
  constant members \<^verbatim>\<open>type: 'Feature'\<close> and \<^verbatim>\<open>type: 'FeatureCollection'\<close> are
  left out; an optional member is \<open>None\<close> when the key is absent.\<close>

record feature =
  geometry :: jsval
  properties :: props
  bbox :: "jsval option"

record collection =
  features :: "feature list"
  collection_bbox :: "jsval option"

section \<open>Diagnostics\<close>

text \<open>The module-level logger is a side effect; each function returns the lines it
  logged, in order. A line keeps the data the message interpolates.\<close>

datatype log =
    Warn_no_center_point
  | Warn_no_name_default jsval
  | Warn_addendum_decode jsval string
  | Error_bbox error
  | Error_geojson collection

section \<open>Collaborators\<close>

text \<open>
  The modules this file requires are not part of it; the pipeline is parametric in
  them. \<open>decode_gid\<close> is \<^verbatim>\<open>./decode_gid\<close>; \<open>getGid s l i\<close> is
  \<^verbatim>\<open>new Document(s, l, i).getGid()\<close>; \<open>parseFloat\<close> and \<open>toNumber\<close> are the
  built-ins \<^verbatim>\<open>parseFloat\<close> and \<^verbatim>\<open>Number\<close>, which return a double for every JSON
  value; \<open>getStringValue\<close> is \<^verbatim>\<open>field.getStringValue\<close>; \<open>collectDetails\<close> is
  \<^verbatim>\<open>./geojsonify_place_details\<close> and returns an object that it builds member by
  member, so one that owns no \<^verbatim>\<open>__proto__\<close> key; \<open>decode\<close> is
  \<^verbatim>\<open>codec.decode\<close>; \<open>extent\<close> is \<^verbatim>\<open>@mapbox/geojson-extent\<close>, applied to the
  collection of extent points; \<open>iso3166_info\<close> is \<^verbatim>\<open>iso3166.info\<close>.
  A collaborator that can throw returns a sum.
\<close>

record env =
  decode_gid :: "jsval \<Rightarrow> error + jsval"
  getGid :: "jsval \<Rightarrow> jsval \<Rightarrow> jsval \<Rightarrow> error + jsval"
  parseFloat :: "jsval \<Rightarrow> 64 word"
  toNumber :: "jsval \<Rightarrow> 64 word"
  getStringValue :: "jsval \<Rightarrow> error + jsval"
  collectDetails :: "jsval \<Rightarrow> jsval \<Rightarrow> error + props"
  decode :: "jsval \<Rightarrow> error + jsval"
  extent :: "collection \<Rightarrow> error + jsval"
  iso3166_info :: "string \<Rightarrow> jsval"

section \<open>The place transformer: \<^verbatim>\<open>geojsonifyPlace\<close>\<close>

text \<open>Lines 48 to 60: resolve the identifier and set up the base document. The object
  literal evaluates its members in order, so the first failing read decides the error.\<close>

definition base_doc :: "env \<Rightarrow> jsval \<Rightarrow> error + props" where
  "base_doc env place =
     bindE (dot place ''_id'') (\<lambda>place_id.
     bindE (decode_gid env place_id) (\<lambda>gid_components.
     bindE (dot gid_components ''id'') (\<lambda>id1.
     bindE (dot place ''source'') (\<lambda>source1.
     bindE (dot place ''layer'') (\<lambda>layer1.
     bindE (dot gid_components ''id'') (\<lambda>id2.
     bindE (getGid env source1 layer1 id2) (\<lambda>gid.
     bindE (dot place ''layer'') (\<lambda>layer2.
     bindE (dot place ''source'') (\<lambda>source2.
     bindE (dot gid_components ''id'') (\<lambda>id3.
     bindE (dot place ''bounding_box'') (\<lambda>bounding_box.
     bindE (dot place ''center_point'') (\<lambda>center_point1.
     bindE (dot center_point1 ''lat'') (\<lambda>lat.
     bindE (dot place ''center_point'') (\<lambda>center_point2.
     bindE (dot center_point2 ''lon'') (\<lambda>lon.
     Inr [(''id'', id1),
          (''gid'', gid),
          (''layer'', layer2),
          (''source'', source2),
          (''source_id'', id3),
          (''country_code'', JUndefined),
          (''bounding_box'', bounding_box),
          (''lat'', JNum (parseFloat env lat)),
          (''lng'', JNum (parseFloat env lon))])))))))))))))))"

text \<open>Lines 62 to 67: assign the name, or warn that it is missing.\<close>

definition assign_name :: "env \<Rightarrow> jsval \<Rightarrow> props \<Rightarrow> error + props \<times> log list" where
  "assign_name env place doc =
     (if has_path2 place ''name'' ''default'' then
        bindE (dot place ''name'') (\<lambda>name.
        bindE (dot name ''default'') (\<lambda>name_default.
        bindE (getStringValue env name_default) (\<lambda>s.
        Inr (AList.update ''name'' s doc, []))))
      else Inr (doc, [Warn_no_name_default (lookup doc ''gid'')]))"

text \<open>\<^verbatim>\<open>Object.assign(doc, details)\<close>: every own property of \<^verbatim>\<open>details\<close> is
  assigned to \<^verbatim>\<open>doc\<close>, in the order of \<^verbatim>\<open>details\<close>.\<close>

definition object_assign :: "props \<Rightarrow> props \<Rightarrow> props" where
  "object_assign doc details = foldl (\<lambda>d (k, v). obj_set k v d) doc details"

text \<open>Lines 76 to 82: the loop over the namespaces, with \<^verbatim>\<open>addendum\<close> the object
  that starts as \<^verbatim>\<open>{}\<close>. A decode that throws is caught, logged with the
  document's gid and the namespace, and the loop goes on.\<close>

fun decode_namespaces :: "env \<Rightarrow> jsval \<Rightarrow> (string \<times> jsval) list \<Rightarrow> props \<Rightarrow> props \<times> log list" where
  "decode_namespaces env gid [] addendum = (addendum, [])"
| "decode_namespaces env gid ((namespace, blob) # rest) addendum =
     (case decode env blob of
        Inr v \<Rightarrow> decode_namespaces env gid rest (obj_set namespace v addendum)
      | Inl e \<Rightarrow>
          (let (addendum', logs) = decode_namespaces env gid rest addendum
           in (addendum', Warn_addendum_decode gid namespace # logs)))"

text \<open>Lines 74 to 86: add the addendum, only when at least one namespace decoded.\<close>

definition add_addendum :: "env \<Rightarrow> jsval \<Rightarrow> props \<Rightarrow> error + props \<times> log list" where
  "add_addendum env place doc =
     (if has place ''addendum'' then
        bindE (dot place ''addendum'') (\<lambda>place_addendum.
        let (addendum, logs) =
              decode_namespaces env (lookup doc ''gid'') (for_in place_addendum) []
        in Inr (if addendum \<noteq> [] then AList.update ''addendum'' (JObj addendum) doc
                else doc,
                logs))
      else Inr (doc, []))"

text \<open>Lines 88 to 90: copy the debug payload when it is truthy.\<close>

definition add_debug :: "jsval \<Rightarrow> props \<Rightarrow> error + props" where
  "add_debug place doc =
     bindE (dot place ''debug'') (\<lambda>debug1.
     if truthy debug1 then
       bindE (dot place ''debug'') (\<lambda>debug2. Inr (AList.update ''debug'' debug2 doc))
     else Inr doc)"

text \<open>Lines 47 to 93.\<close>

definition geojsonifyPlace :: "env \<Rightarrow> jsval \<Rightarrow> jsval \<Rightarrow> error + props \<times> log list" where
  "geojsonifyPlace env params place =
     bindE (base_doc env place) (\<lambda>doc.
     bindE (assign_name env place doc) (\<lambda>(doc, logs1).
     bindE (collectDetails env params place) (\<lambda>details.
     bindE (add_addendum env place (object_assign doc details)) (\<lambda>(doc, logs2).
     bindE (add_debug place doc) (\<lambda>doc.
     Inr (doc, logs1 @ logs2))))))"

section \<open>The collection assembler\<close>

text \<open>The \<^verbatim>\<open>geojson\<close> package, called with \<^verbatim>\<open>{ Point: ['lat', 'lng'] }\<close>: one
  feature per item, in order. An item that owns both attributes gets the Point geometry
  \<^verbatim>\<open>[Number(lng), Number(lat)]\<close>, any other item an empty geometry; the properties
  are the item's own properties other than the two geometry attributes.\<close>

definition getFeature :: "env \<Rightarrow> props \<Rightarrow> feature" where
  "getFeature env item =
     \<lparr> geometry =
         (if map_of item ''lat'' \<noteq> None \<and> map_of item ''lng'' \<noteq> None then
            JObj [(''type'', JStr ''Point''),
                  (''coordinates'',
                   JArr [JNum (toNumber env (lookup item ''lng'')),
                         JNum (toNumber env (lookup item ''lat''))])]
          else JObj []),
       properties = filter (\<lambda>(k, v). k \<noteq> ''lat'' \<and> k \<noteq> ''lng'') item,
       bbox = None \<rparr>"

definition GeoJSON_parse :: "env \<Rightarrow> props list \<Rightarrow> collection" where
  "GeoJSON_parse env items =
     \<lparr> features = map (getFeature env) items, collection_bbox = None \<rparr>"

text \<open>Lines 16 to 23: the filter callback, with the warning it logs for each document
  it drops.\<close>

fun filter_center_point :: "jsval list \<Rightarrow> jsval list \<times> log list" where
  "filter_center_point [] = ([], [])"
| "filter_center_point (doc # docs) =
     (let (kept, logs) = filter_center_point docs
      in if \<not> has doc ''center_point'' then (kept, Warn_no_center_point # logs)
         else (doc # kept, logs))"

text \<open>Lines 101 to 112, the callback of \<^verbatim>\<open>forEach\<close>.\<close>

definition addBBox1 :: "feature \<Rightarrow> error + feature" where
  "addBBox1 f =
     bindE
       (let bounding_box = lookup (properties f) ''bounding_box'' in
        if truthy bounding_box then
          bindE (dot bounding_box ''min_lon'') (\<lambda>min_lon.
          bindE (dot bounding_box ''min_lat'') (\<lambda>min_lat.
          bindE (dot bounding_box ''max_lon'') (\<lambda>max_lon.
          bindE (dot bounding_box ''max_lat'') (\<lambda>max_lat.
          Inr (f\<lparr>bbox := Some (JArr [min_lon, min_lat, max_lon, max_lat])\<rparr>)))))
        else Inr f)
       (\<lambda>f. Inr (f\<lparr>properties := AList.delete ''bounding_box'' (properties f)\<rparr>))"

definition addBBoxPerFeature :: "collection \<Rightarrow> error + collection" where
  "addBBoxPerFeature geojson =
     bindE (mapE addBBox1 (features geojson)) (\<lambda>fs. Inr (geojson\<lparr>features := fs\<rparr>))"

text \<open>Lines 123 to 149: \<^verbatim>\<open>reduce\<close> with an accumulator that each step pushes to.\<close>

fun extentPoints_reduce :: "props list \<Rightarrow> props list \<Rightarrow> error + props list" where
  "extentPoints_reduce extentPoints [] = Inr extentPoints"
| "extentPoints_reduce extentPoints (place # rest) =
     (let bounding_box = lookup place ''bounding_box'' in
      if truthy bounding_box then
        bindE (dot bounding_box ''min_lon'') (\<lambda>min_lon.
        bindE (dot bounding_box ''min_lat'') (\<lambda>min_lat.
        bindE (dot bounding_box ''max_lon'') (\<lambda>max_lon.
        bindE (dot bounding_box ''max_lat'') (\<lambda>max_lat.
        extentPoints_reduce
          (extentPoints @ [[(''lng'', min_lon), (''lat'', min_lat)]]
                        @ [[(''lng'', max_lon), (''lat'', max_lat)]])
          rest))))
      else
        extentPoints_reduce
          (extentPoints @ [[(''lng'', lookup place ''lng''), (''lat'', lookup place ''lat'')]])
          rest)"

definition extractExtentPoints :: "props list \<Rightarrow> error + props list" where
  "extractExtentPoints geodata = extentPoints_reduce [] geodata"

text \<open>Lines 157 to 169: the exception of \<^verbatim>\<open>extent\<close> is caught and logged.\<close>

definition computeBBox :: "env \<Rightarrow> collection \<Rightarrow> collection \<Rightarrow> collection \<times> log list" where
  "computeBBox env geojson geojsonExtentPoints =
     (case extent env geojsonExtentPoints of
        Inr bbox1 \<Rightarrow>
          (if truthy bbox1 then geojson\<lparr>collection_bbox := Some bbox1\<rparr> else geojson, [])
      | Inl e \<Rightarrow> (geojson, [Error_bbox e, Error_geojson geojsonExtentPoints]))"

text \<open>\<^verbatim>\<open>a || b\<close>.\<close>

definition js_or :: "jsval \<Rightarrow> jsval \<Rightarrow> jsval" where
  "js_or a b = (if truthy a then a else b)"

text \<open>Lines 177 to 186, the callback of \<^verbatim>\<open>forEach\<close>. \<^verbatim>\<open>_.get\<close> and
  \<^verbatim>\<open>_.set\<close> walk \<^verbatim>\<open>feature.properties\<close>, which is always an object.\<close>

definition addISO3166Props1 :: "env \<Rightarrow> feature \<Rightarrow> feature" where
  "addISO3166Props1 env f =
     (let code = js_or (lookup (properties f) ''country_a'')
                   (js_or (lookup (properties f) ''dependency_a'') (JStr []))
      in case code of
           JStr s \<Rightarrow>
             if s = [] then f
             else (let info = iso3166_info env s;
                       alpha2 = lodash_get info ''alpha2''
                   in case alpha2 of
                        JStr a \<Rightarrow>
                          if length a \<noteq> 2 then f
                          else f\<lparr>properties :=
                                   AList.update ''country_code'' (JStr a) (properties f)\<rparr>
                      | _ \<Rightarrow> f)
         | _ \<Rightarrow> f)"

definition addISO3166PropsPerFeature :: "env \<Rightarrow> collection \<Rightarrow> collection" where
  "addISO3166PropsPerFeature env geojson =
     geojson\<lparr>features := map (addISO3166Props1 env) (features geojson)\<rparr>"

text \<open>Lines 12 to 45. The filter runs over all documents before the first document is
  transformed, so its warnings come first.\<close>

definition geojsonifyPlaces :: "env \<Rightarrow> jsval \<Rightarrow> jsval list \<Rightarrow> error + collection \<times> log list" where
  "geojsonifyPlaces env params docs =
     (let (kept, logs0) = filter_center_point docs in
      bindE (mapE (geojsonifyPlace env params) kept) (\<lambda>results.
      let geodata = map fst results;
          logs1 = concat (map snd results) in
      bindE (extractExtentPoints geodata) (\<lambda>extentPoints.
      let geojson = GeoJSON_parse env geodata;
          geojsonExtentPoints = GeoJSON_parse env extentPoints in
      bindE (addBBoxPerFeature geojson) (\<lambda>geojson.
      let geojson = addISO3166PropsPerFeature env geojson;
          (geojson, logs2) = computeBBox env geojson geojsonExtentPoints
      in Inr (geojson, logs0 @ logs1 @ logs2)))))"

section \<open>Notions the properties are stated with\<close>

text \<open>The extent points one transformed record contributes, in the words of the
  description: the two opposite corners of its bounding box when it carries one, its
  own point otherwise. A record carries a bounding box when the value of its
  \<^verbatim>\<open>bounding_box\<close> member is truthy (the member itself is always there, with the
  value \<^verbatim>\<open>undefined\<close> for a document without a box). \<open>lodash_get b k\<close> is the
  value of \<^verbatim>\<open>b.k\<close> for every truthy \<open>b\<close>.\<close>

definition extent_points_spec :: "props \<Rightarrow> props list" where
  "extent_points_spec r =
     (let bounding_box = lookup r ''bounding_box'' in
      if truthy bounding_box then
        [[(''lng'', lodash_get bounding_box ''min_lon''), (''lat'', lodash_get bounding_box ''min_lat'')],
         [(''lng'', lodash_get bounding_box ''max_lon''), (''lat'', lodash_get bounding_box ''max_lat'')]]
      else [[(''lng'', lookup r ''lng''), (''lat'', lookup r ''lat'')]])"

text \<open>What the promotion of the bounding box makes of one feature.\<close>

definition promote_bbox :: "feature \<Rightarrow> feature" where
  "promote_bbox f =
     f\<lparr>bbox := (let b = lookup (properties f) ''bounding_box'' in
                   if truthy b then
                     Some (JArr [lodash_get b ''min_lon'', lodash_get b ''min_lat'',
                                 lodash_get b ''max_lon'', lodash_get b ''max_lat''])
                   else bbox f),
       properties := AList.delete ''bounding_box'' (properties f)\<rparr>"

text \<open>The two-character code that the normalizer resolves a value to, if the value is
  a non-empty string and the normalizer knows it.\<close>

definition country_code_of :: "env \<Rightarrow> jsval \<Rightarrow> string option" where
  "country_code_of env code =
     (case code of
        JStr s \<Rightarrow>
          (if s = [] then None
           else (case lodash_get (iso3166_info env s) ''alpha2'' of
                   JStr a \<Rightarrow> if length a = 2 then Some a else None
                 | _ \<Rightarrow> None))
      | _ \<Rightarrow> None)"

text \<open>The namespaces of an addendum that decode, with their decoded values, and the
  namespaces whose decode throws.\<close>

definition decoded_namespaces :: "env \<Rightarrow> (string \<times> jsval) list \<Rightarrow> props" where
  "decoded_namespaces env ns =
     concat (map (\<lambda>(namespace, blob).
                    case decode env blob of Inr v \<Rightarrow> [(namespace, v)] | Inl e \<Rightarrow> []) ns)"

definition failed_namespaces :: "env \<Rightarrow> (string \<times> jsval) list \<Rightarrow> string list" where
  "failed_namespaces env ns =
     concat (map (\<lambda>(namespace, blob).
                    case decode env blob of Inr v \<Rightarrow> [] | Inl e \<Rightarrow> [namespace]) ns)"

text \<open>Lines 48 to 70 of \<^verbatim>\<open>geojsonifyPlace\<close>: the document as it stands when the
  addendum block is reached.\<close>

definition before_addendum :: "env \<Rightarrow> jsval \<Rightarrow> jsval \<Rightarrow> error + props \<times> log list" where
  "before_addendum env params place =
     bindE (base_doc env place) (\<lambda>doc.
     bindE (assign_name env place doc) (\<lambda>(doc, logs1).
     bindE (collectDetails env params place) (\<lambda>details.
     Inr (object_assign doc details, logs1))))"

text \<open>The feature that one surviving document becomes: the transformer, the geometry
  encoding and the two per-feature callbacks, applied to that document alone.\<close>

definition feature_of :: "env \<Rightarrow> jsval \<Rightarrow> jsval \<Rightarrow> error + feature" where
  "feature_of env params doc =
     bindE (geojsonifyPlace env params doc) (\<lambda>(item, logs).
     bindE (addBBox1 (getFeature env item)) (\<lambda>f.
     Inr (addISO3166Props1 env f)))"

text \<open>The lines the transformer logs, and the lines the bounding-box computation logs
  when \<^verbatim>\<open>extent\<close> throws.\<close>

fun transformer_line :: "log \<Rightarrow> bool" where
  "transformer_line (Warn_no_name_default gid) = True"
| "transformer_line (Warn_addendum_decode gid namespace) = True"
| "transformer_line l = False"

fun is_bbox_error :: "log \<Rightarrow> bool" where
  "is_bbox_error (Error_bbox e) = True"
| "is_bbox_error (Error_geojson points) = True"
| "is_bbox_error l = False"

section \<open>Sample collaborators and documents\<close>

text \<open>A small set of collaborators, for evaluating the pipeline on concrete documents.
  The identifier resolver knows two identifiers and answers \<^verbatim>\<open>undefined\<close> for any
  other; the decoder accepts strings only; \<^verbatim>\<open>extent\<close> answers
  \<^verbatim>\<open>null\<close> for a collection without points, as the package does, and throws on
  any other; the normalizer knows \<^verbatim>\<open>USA\<close>. The doubles are written as bit patterns:
  \<open>0x4024000000000000\<close> is 10, \<open>0x4034000000000000\<close> is 20.\<close>

definition demo_env :: env where
  "demo_env =
     \<lparr> decode_gid =
         (\<lambda>v. if v = JStr ''osm:venue:101'' then
                Inr (JObj [(''source'', JStr ''osm''), (''layer'', JStr ''venue''),
                           (''id'', JStr ''101'')])
              else if v = JStr ''wof:locality:7'' then
                Inr (JObj [(''source'', JStr ''wof''), (''layer'', JStr ''locality''),
                           (''id'', JStr ''7'')])
              else Inr JUndefined),
       getGid =
         (\<lambda>s l i. case (s, l, i) of
                    (JStr a, JStr b, JStr c) \<Rightarrow> Inr (JStr (a @ '':'' @ b @ '':'' @ c))
                  | _ \<Rightarrow> Inl (Thrown ''invalid document'')),
       parseFloat = (\<lambda>v. case v of JNum w \<Rightarrow> w | _ \<Rightarrow> 0x7FF8000000000000),
       toNumber = (\<lambda>v. case v of JNum w \<Rightarrow> w | _ \<Rightarrow> 0x7FF8000000000000),
       getStringValue = (\<lambda>v. Inr v),
       collectDetails = (\<lambda>params place. Inr [(''country_a'', lodash_get place ''country_a'')]),
       decode =
         (\<lambda>v. case v of JStr s \<Rightarrow> Inr (JObj [(''decoded'', JStr s)])
                        | _ \<Rightarrow> Inl (Thrown ''decode'')),
       extent = (\<lambda>c. if features c = [] then Inr JNull else Inl (Thrown ''extent'')),
       iso3166_info =
         (\<lambda>s. if s = ''USA'' then JObj [(''alpha2'', JStr ''US'')] else JUndefined) \<rparr>"

definition demo_bounding_box :: jsval where
  "demo_bounding_box =
     JObj [(''min_lon'', JNum 0x4033000000000000), (''min_lat'', JNum 0x4022000000000000),
           (''max_lon'', JNum 0x4035000000000000), (''max_lat'', JNum 0x4026000000000000)]"

text \<open>A complete document, and a list of documents of which two have no center
  point.\<close>

definition demo_place :: jsval where
  "demo_place =
     JObj [(''_id'', JStr ''osm:venue:101''),
           (''source'', JStr ''osm''),
           (''layer'', JStr ''venue''),
           (''center_point'',
            JObj [(''lat'', JNum 0x4024000000000000), (''lon'', JNum 0x4034000000000000)]),
           (''country_a'', JStr ''USA''),
           (''bounding_box'', demo_bounding_box),
           (''addendum'', JObj [(''a'', JStr ''x''), (''b'', JNum 0x401C000000000000)]),
           (''debug'', JStr ''on'')]"

definition demo_docs :: "jsval list" where
  "demo_docs = [demo_place, JNull, JObj [(''name'', JObj [(''default'', JStr ''n'')])]]"

text \<open>A second complete document, and a list in which two documents with a center
  point stand between and around two without.\<close>

definition demo_place2 :: jsval where
  "demo_place2 =
     JObj [(''_id'', JStr ''wof:locality:7''),
           (''source'', JStr ''wof''),
           (''layer'', JStr ''locality''),
           (''center_point'',
            JObj [(''lat'', JNum 0x4034000000000000), (''lon'', JNum 0x4024000000000000)])]"

definition demo_docs2 :: "jsval list" where
  "demo_docs2 =
     [demo_place2, JNull, demo_place, JObj [(''name'', JObj [(''default'', JStr ''n'')])]]"

text \<open>A document whose \<^verbatim>\<open>center_point\<close> member exists and is \<^verbatim>\<open>null\<close>.\<close>

definition null_center_place :: jsval where
  "null_center_place =
     JObj [(''_id'', JStr ''osm:venue:101''),
           (''source'', JStr ''osm''),
           (''layer'', JStr ''venue''),
           (''center_point'', JNull)]"

text \<open>A document whose addendum has the namespace \<^verbatim>\<open>__proto__\<close>, with a blob
  that decodes.\<close>

definition proto_place :: jsval where
  "proto_place =
     JObj [(''_id'', JStr ''osm:venue:101''),
           (''source'', JStr ''osm''),
           (''layer'', JStr ''venue''),
           (''center_point'',
            JObj [(''lat'', JNum 0x4024000000000000), (''lon'', JNum 0x4034000000000000)]),
           (''addendum'', JObj [(''__proto__'', JStr ''x'')])]"

text \<open>Features for the country-code step: only \<^verbatim>\<open>dependency_a\<close>; an empty
  \<^verbatim>\<open>country_a\<close> before a \<^verbatim>\<open>dependency_a\<close>; a known \<^verbatim>\<open>country_a\<close>
  before an unknown \<^verbatim>\<open>dependency_a\<close>; an unknown \<^verbatim>\<open>country_a\<close> before a
  known \<^verbatim>\<open>dependency_a\<close>; a \<^verbatim>\<open>country_a\<close> that is not a string; neither.\<close>

definition iso_features :: "feature list" where
  "iso_features =
     [\<lparr> geometry = JObj [], properties = [(''dependency_a'', JStr ''USA'')], bbox = None \<rparr>,
      \<lparr> geometry = JObj [],
        properties = [(''country_a'', JStr []), (''dependency_a'', JStr ''USA'')],
        bbox = None \<rparr>,
      \<lparr> geometry = JObj [],
        properties = [(''country_a'', JStr ''USA''), (''dependency_a'', JStr ''ZZZ'')],
        bbox = None \<rparr>,
      \<lparr> geometry = JObj [],
        properties = [(''country_a'', JStr ''ZZZ''), (''dependency_a'', JStr ''USA'')],
        bbox = None \<rparr>,
      \<lparr> geometry = JObj [],
        properties = [(''country_a'', JBool True), (''dependency_a'', JStr ''USA'')],
        bbox = None \<rparr>,
      \<lparr> geometry = JObj [], properties = [(''country_code'', JUndefined)], bbox = None \<rparr>]"

text \<open>A document whose \<^verbatim>\<open>_id\<close> names another source and layer than its own
  \<^verbatim>\<open>source\<close> and \<^verbatim>\<open>layer\<close> members.\<close>

definition mismatched_place :: jsval where
  "mismatched_place =
     JObj [(''_id'', JStr ''wof:locality:7''),
           (''source'', JStr ''osm''),
           (''layer'', JStr ''venue''),
           (''center_point'',
            JObj [(''lat'', JNum 0x4024000000000000), (''lon'', JNum 0x4034000000000000)])]"

text \<open>A document whose \<^verbatim>\<open>debug\<close> member exists and is \<^verbatim>\<open>false\<close>.\<close>

definition quiet_place :: jsval where
  "quiet_place =
     JObj [(''_id'', JStr ''osm:venue:101''),
           (''source'', JStr ''osm''),
           (''layer'', JStr ''venue''),
           (''center_point'',
            JObj [(''lat'', JNum 0x4024000000000000), (''lon'', JNum 0x4034000000000000)]),
           (''debug'', JBool False)]"

text \<open>What the pipeline returns on the sample documents.\<close>

definition demo_before :: props where
  "demo_before =
     [(''id'', JStr ''101''), (''gid'', JStr ''osm:venue:101''), (''layer'', JStr ''venue''),
      (''source'', JStr ''osm''), (''source_id'', JStr ''101''), (''country_code'', JUndefined),
      (''bounding_box'', demo_bounding_box),
      (''lat'', JNum 0x4024000000000000), (''lng'', JNum 0x4034000000000000),
      (''country_a'', JStr ''USA'')]"

definition demo_item :: props where
  "demo_item =
     demo_before @
     [(''addendum'', JObj [(''a'', JObj [(''decoded'', JStr ''x'')])]),
      (''debug'', JStr ''on'')]"

definition demo_item_logs :: "log list" where
  "demo_item_logs =
     [Warn_no_name_default (JStr ''osm:venue:101''),
      Warn_addendum_decode (JStr ''osm:venue:101'') ''b'']"

definition demo_feature :: feature where
  "demo_feature =
     \<lparr> geometry =
         JObj [(''type'', JStr ''Point''),
               (''coordinates'', JArr [JNum 0x4034000000000000, JNum 0x4024000000000000])],
       properties =
         [(''id'', JStr ''101''), (''gid'', JStr ''osm:venue:101''), (''layer'', JStr ''venue''),
          (''source'', JStr ''osm''), (''source_id'', JStr ''101''),
          (''country_code'', JStr ''US''), (''country_a'', JStr ''USA''),
          (''addendum'', JObj [(''a'', JObj [(''decoded'', JStr ''x'')])]),
          (''debug'', JStr ''on'')],
       bbox =
         Some (JArr [JNum 0x4033000000000000, JNum 0x4022000000000000,
                     JNum 0x4035000000000000, JNum 0x4026000000000000]) \<rparr>"

definition demo_extent_points :: "props list" where
  "demo_extent_points =
     [[(''lng'', JNum 0x4033000000000000), (''lat'', JNum 0x4022000000000000)],
      [(''lng'', JNum 0x4035000000000000), (''lat'', JNum 0x4026000000000000)]]"

definition demo_collection :: collection where
  "demo_collection = \<lparr> features = [demo_feature], collection_bbox = None \<rparr>"

definition demo_logs :: "log list" where
  "demo_logs =
     [Warn_no_center_point, Warn_no_center_point] @ demo_item_logs @
     [Error_bbox (Thrown ''extent''),
      Error_geojson (GeoJSON_parse demo_env demo_extent_points)]"

definition demo_item2 :: props where
  "demo_item2 =
     [(''id'', JStr ''7''), (''gid'', JStr ''wof:locality:7''), (''layer'', JStr ''locality''),
      (''source'', JStr ''wof''), (''source_id'', JStr ''7''), (''country_code'', JUndefined),
      (''bounding_box'', JUndefined),
      (''lat'', JNum 0x4034000000000000), (''lng'', JNum 0x4024000000000000),
      (''country_a'', JUndefined)]"

definition demo_feature2 :: feature where
  "demo_feature2 =
     \<lparr> geometry =
         JObj [(''type'', JStr ''Point''),
               (''coordinates'', JArr [JNum 0x4024000000000000, JNum 0x4034000000000000])],
       properties =
         [(''id'', JStr ''7''), (''gid'', JStr ''wof:locality:7''), (''layer'', JStr ''locality''),
          (''source'', JStr ''wof''), (''source_id'', JStr ''7''),
          (''country_code'', JUndefined), (''country_a'', JUndefined)],
       bbox = None \<rparr>"

definition demo_extent_points2 :: "props list" where
  "demo_extent_points2 =
     [(''lng'', JNum 0x4024000000000000), (''lat'', JNum 0x4034000000000000)]
     # demo_extent_points"

definition demo_collection2 :: collection where
  "demo_collection2 = \<lparr> features = [demo_feature2, demo_feature], collection_bbox = None \<rparr>"

definition demo_logs2 :: "log list" where
  "demo_logs2 =
     [Warn_no_center_point, Warn_no_center_point,
      Warn_no_name_default (JStr ''wof:locality:7'')] @ demo_item_logs"

text \<open>The same collaborators with an \<^verbatim>\<open>extent\<close> that returns a box.\<close>

definition demo_box :: jsval where
  "demo_box =
     JArr [JNum 0x4033000000000000, JNum 0x4022000000000000,
           JNum 0x4035000000000000, JNum 0x4026000000000000]"

definition demo_env_box :: env where
  "demo_env_box = demo_env\<lparr>extent := (\<lambda>c. Inr demo_box)\<rparr>"

section \<open>Basic facts\<close>

lemma bindE_Inr_iff: "bindE r f = Inr y \<longleftrightarrow> (\<exists>x. r = Inr x \<and> f x = Inr y)"
  by (cases r) (simp_all add: bindE_def)

lemma bindE_Inr [simp]: "bindE (Inr x) f = f x"
  by (simp add: bindE_def)

lemma bindE_Inl [simp]: "bindE (Inl e) f = Inl e"
  by (simp add: bindE_def)

lemma mapE_Inr: "mapE f xs = Inr ys \<Longrightarrow> map f xs = map Inr ys"
proof (induction xs arbitrary: ys)
  case Nil
  then show ?case by simp
next
  case (Cons x xs)
  then show ?case by (auto simp: bindE_Inr_iff)
qed

lemma mapE_total: "(\<And>x. f x = Inr (g x)) \<Longrightarrow> mapE f xs = Inr (map g xs)"
  by (induction xs) simp_all

text \<open>A read of a member of a truthy value never throws.\<close>

lemma dot_truthy: "truthy v \<Longrightarrow> dot v k = Inr (lodash_get v k)"
  by (cases v) simp_all

lemma dot_InrD: "dot v k = Inr x \<Longrightarrow> x = lodash_get v k"
  by (cases v) auto

lemma has_dot: "has place k \<Longrightarrow> \<exists>v. dot place k' = Inr v"
  by (cases place) simp_all

lemma map_of_insert_index:
  "map_of ps k = None \<Longrightarrow>
   map_of (insert_index k v ps) k' = (if k' = k then Some v else map_of ps k')"
  by (induction ps) (auto split: if_splits)

lemma map_of_obj_set:
  "map_of (obj_set k v ps) k' =
     (if k = ''__proto__'' then map_of ps k'
      else if k' = k then Some v else map_of ps k')"
  by (auto simp: obj_set_def update_conv' map_of_insert_index map_add_def
      split: option.splits)

lemma filter_none: "x \<notin> set xs \<Longrightarrow> filter (\<lambda>l. l = x) xs = []"
  by (induction xs) auto

lemma length_filter_split:
  "length (filter P xs) = length xs - length (filter (\<lambda>x. \<not> P x) xs)"
  using sum_length_filter_compl [of P xs] by simp

lemmas demo_simps = demo_env_def demo_place_def demo_bounding_box_def demo_before_def
  demo_item_def demo_item_logs_def demo_feature_def demo_extent_points_def demo_collection_def
  demo_logs_def demo_docs_def
  geojsonifyPlaces_def geojsonifyPlace_def base_doc_def
  assign_name_def add_addendum_def add_debug_def object_assign_def has_path2_def lookup_def
  addBBoxPerFeature_def addBBox1_def GeoJSON_parse_def getFeature_def extractExtentPoints_def
  computeBBox_def addISO3166PropsPerFeature_def addISO3166Props1_def js_or_def is_nan_def
  obj_set_def is_index_def is_digit_def index_value_def

lemmas demo2_simps = demo_place2_def demo_docs2_def demo_item2_def demo_feature2_def
  demo_extent_points2_def demo_collection2_def demo_logs2_def

lemma demo_place_run:
  "geojsonifyPlace demo_env JNull demo_place = Inr (demo_item, demo_item_logs)"
  by (simp add: demo_simps)

lemma demo_results:
  "mapE (geojsonifyPlace demo_env JNull) (fst (filter_center_point demo_docs)) =
     Inr [(demo_item, demo_item_logs)]"
  by (simp add: demo_docs_def demo_place_run) (simp add: demo_place_def)

lemma demo_run: "geojsonifyPlaces demo_env JNull demo_docs = Inr (demo_collection, demo_logs)"
  by (simp add: demo_simps)

lemma demo_kept2: "filter (\<lambda>d. has d ''center_point'') demo_docs2 = [demo_place2, demo_place]"
  by (simp add: demo_docs2_def demo_place2_def demo_place_def)

lemma demo_dropped2: "length (filter (\<lambda>d. \<not> has d ''center_point'') demo_docs2) = 2"
  by (simp add: demo_docs2_def demo_place2_def demo_place_def)

lemma demo_place2_run:
  "geojsonifyPlace demo_env JNull demo_place2 =
     Inr (demo_item2, [Warn_no_name_default (JStr ''wof:locality:7'')])"
  by (simp add: demo2_simps demo_simps)

lemma demo_results2:
  "mapE (geojsonifyPlace demo_env JNull) (filter (\<lambda>d. has d ''center_point'') demo_docs2) =
     Inr [(demo_item2, [Warn_no_name_default (JStr ''wof:locality:7'')]),
          (demo_item, demo_item_logs)]"
  by (simp add: demo_kept2 demo_place_run demo_place2_run)

lemma demo_points2:
  "extractExtentPoints
     (map fst [(demo_item2, [Warn_no_name_default (JStr ''wof:locality:7'')]),
               (demo_item, demo_item_logs)]) = Inr demo_extent_points2"
  by (simp add: extractExtentPoints_def demo_item_def demo_item2_def demo_before_def
      demo_bounding_box_def demo_extent_points_def demo_extent_points2_def lookup_def Let_def)

lemma demo_run2:
  "geojsonifyPlaces demo_env JNull demo_docs2 =
     Inr (demo_collection2,
          demo_logs2 @ [Error_bbox (Thrown ''extent''),
                        Error_geojson (GeoJSON_parse demo_env demo_extent_points2)])"
  by (simp add: demo2_simps demo_simps)

section \<open>Extent points\<close>

lemma extentPoints_reduce_eq:
  "extentPoints_reduce acc geodata = Inr (acc @ concat (map extent_points_spec geodata))"
proof (induction geodata arbitrary: acc)
  case Nil
  then show ?case by simp
next
  case (Cons place rest)
  show ?case
  proof (cases "truthy (lookup place ''bounding_box'')")
    case True
    then show ?thesis
      by (simp add: Let_def dot_truthy Cons.IH extent_points_spec_def)
  next
    case False
    then show ?thesis
      by (simp add: Let_def Cons.IH extent_points_spec_def)
  qed
qed

lemma length_extent_points_spec:
  "1 \<le> length (extent_points_spec r) \<and> length (extent_points_spec r) \<le> 2"
  by (simp add: extent_points_spec_def Let_def)

lemma length_extent_points:
  "length geodata \<le> length (concat (map extent_points_spec geodata))
   \<and> length (concat (map extent_points_spec geodata)) \<le> 2 * length geodata"
proof (induction geodata)
  case Nil
  then show ?case by simp
next
  case (Cons r rs)
  have "1 \<le> length (extent_points_spec r) \<and> length (extent_points_spec r) \<le> 2"
    by (rule length_extent_points_spec)
  with Cons.IH show ?case by simp
qed

text \<open>C6. For every sequence of N transformed records, \<^verbatim>\<open>extractExtentPoints\<close>
  returns (it never throws) one flat sequence, in the order of the records, in which
  each record that carries a bounding box contributes exactly its two corners
  (min_lon, min_lat) and (max_lon, max_lat) and each other record exactly its own
  (lng, lat) point; the sequence has between N and 2N points.\<close>

theorem extractExtentPoints_flat:
  "extractExtentPoints geodata = Inr (concat (map extent_points_spec geodata))
   \<and> length geodata \<le> length (concat (map extent_points_spec geodata))
   \<and> length (concat (map extent_points_spec geodata)) \<le> 2 * length geodata"
  using length_extent_points [of geodata]
  by (simp add: extractExtentPoints_def extentPoints_reduce_eq)

section \<open>The assembler as a whole\<close>

lemma filter_center_point_eq:
  "filter_center_point docs =
     (filter (\<lambda>d. has d ''center_point'') docs,
      replicate (length (filter (\<lambda>d. \<not> has d ''center_point'') docs)) Warn_no_center_point)"
  by (induction docs) (simp_all add: Let_def)

lemma addBBox1_eq: "addBBox1 f = Inr (promote_bbox f)"
  by (simp add: addBBox1_def promote_bbox_def Let_def dot_truthy)

lemma addBBoxPerFeature_eq:
  "addBBoxPerFeature geojson = Inr (geojson\<lparr>features := map promote_bbox (features geojson)\<rparr>)"
  by (simp add: addBBoxPerFeature_def mapE_total [of addBBox1 promote_bbox] addBBox1_eq)

lemma geojsonifyPlaces_eq:
  assumes "mapE (geojsonifyPlace env params) (filter (\<lambda>d. has d ''center_point'') docs) = Inr results"
  shows "geojsonifyPlaces env params docs =
     (let geojson = \<lparr> features = map (\<lambda>item. addISO3166Props1 env (promote_bbox (getFeature env item)))
                                     (map fst results),
                      collection_bbox = None \<rparr>;
          points = GeoJSON_parse env (concat (map extent_points_spec (map fst results)));
          out = computeBBox env geojson points
      in Inr (fst out,
              replicate (length (filter (\<lambda>d. \<not> has d ''center_point'') docs)) Warn_no_center_point
              @ concat (map snd results) @ snd out))"
  using assms
  by (simp add: geojsonifyPlaces_def filter_center_point_eq extractExtentPoints_def
      extentPoints_reduce_eq addBBoxPerFeature_eq GeoJSON_parse_def
      addISO3166PropsPerFeature_def Let_def split_beta comp_def)

lemma geojsonifyPlaces_InrD:
  assumes "geojsonifyPlaces env params docs = Inr (geojson, logs)"
  shows "\<exists>results. mapE (geojsonifyPlace env params)
                     (filter (\<lambda>d. has d ''center_point'') docs) = Inr results"
  using assms
  by (auto simp: geojsonifyPlaces_def filter_center_point_eq bindE_Inr_iff)

lemma features_computeBBox: "features (fst (computeBBox env geojson points)) = features geojson"
  by (simp add: computeBBox_def split: sum.splits)

lemma feature_of_results:
  assumes "map (geojsonifyPlace env params) kept = map Inr results"
  shows "map (feature_of env params) kept =
         map Inr (map (\<lambda>item. addISO3166Props1 env (promote_bbox (getFeature env item)))
                      (map fst results))"
  using assms
proof (induction kept arbitrary: results)
  case Nil
  then show ?case by simp
next
  case (Cons d ds)
  then obtain r rs where rs: "results = r # rs" by (cases results) auto
  with Cons.prems have d: "geojsonifyPlace env params d = Inr r"
    and ds: "map (geojsonifyPlace env params) ds = map Inr rs" by simp_all
  from d have "feature_of env params d =
      Inr (addISO3166Props1 env (promote_bbox (getFeature env (fst r))))"
    by (simp add: feature_of_def addBBox1_eq split_beta)
  with Cons.IH [OF ds] rs show ?case by simp
qed

lemma geojsonifyPlaces_features:
  assumes "geojsonifyPlaces env params docs = Inr (geojson, logs)"
  shows "map (feature_of env params) (filter (\<lambda>d. has d ''center_point'') docs)
         = map Inr (features geojson)"
proof -
  from geojsonifyPlaces_InrD [OF assms] obtain results where
    r: "mapE (geojsonifyPlace env params) (filter (\<lambda>d. has d ''center_point'') docs) = Inr results"
    by blast
  from geojsonifyPlaces_eq [OF r] assms
  have "features geojson =
        map (\<lambda>item. addISO3166Props1 env (promote_bbox (getFeature env item))) (map fst results)"
    by (auto simp: Let_def features_computeBBox)
  with feature_of_results [OF mapE_Inr [OF r]] show ?thesis by simp
qed

text \<open>The transformer logs only its own two kinds of line, so none of them is the
  warning of the filter or an error of the bounding-box computation.\<close>

lemma decode_namespaces_logs:
  "list_all transformer_line (snd (decode_namespaces env gid ns acc))"
  by (induction ns arbitrary: acc) (auto simp: split_beta split: sum.splits)

lemma assign_name_logs:
  "assign_name env place doc = Inr (d, logs) \<Longrightarrow> list_all transformer_line logs"
  by (auto simp: assign_name_def bindE_Inr_iff split: if_splits)

lemma add_addendum_logs:
  "add_addendum env place doc = Inr (d, logs) \<Longrightarrow> list_all transformer_line logs"
  using decode_namespaces_logs
  by (auto simp: add_addendum_def bindE_Inr_iff split_beta Let_def split: if_splits)

lemma geojsonifyPlace_logs:
  "geojsonifyPlace env params place = Inr (d, logs) \<Longrightarrow> list_all transformer_line logs"
  by (auto simp: geojsonifyPlace_def bindE_Inr_iff dest: assign_name_logs add_addendum_logs)

lemma computeBBox_logs: "Warn_no_center_point \<notin> set (snd (computeBBox env geojson points))"
  by (simp add: computeBBox_def split: sum.splits)

lemma transformer_lines_no_warning:
  "list_all transformer_line logs \<Longrightarrow> filter (\<lambda>l. l = Warn_no_center_point) logs = []"
  by (induction logs) auto

lemma transformer_lines_no_bbox_error:
  "list_all transformer_line logs \<Longrightarrow> filter is_bbox_error logs = []"
proof (induction logs)
  case Nil
  then show ?case by simp
next
  case (Cons l logs)
  then show ?case by (cases l) simp_all
qed

lemma results_logs:
  "map (geojsonifyPlace env params) kept = map Inr results \<Longrightarrow>
   list_all transformer_line (concat (map snd results))"
proof (induction kept arbitrary: results)
  case Nil
  then show ?case by simp
next
  case (Cons d ds)
  then obtain r rs where rs: "results = r # rs" by (cases results) auto
  with Cons.prems have d: "geojsonifyPlace env params d = Inr (fst r, snd r)"
    and ds: "map (geojsonifyPlace env params) ds = map Inr rs" by simp_all
  from geojsonifyPlace_logs [OF d] Cons.IH [OF ds] rs show ?case by simp
qed

lemma geojsonifyPlaces_warnings:
  assumes "geojsonifyPlaces env params docs = Inr (geojson, logs)"
  shows "filter (\<lambda>l. l = Warn_no_center_point) logs =
         replicate (length (filter (\<lambda>d. \<not> has d ''center_point'') docs)) Warn_no_center_point"
proof -
  from geojsonifyPlaces_InrD [OF assms] obtain results where
    r: "mapE (geojsonifyPlace env params) (filter (\<lambda>d. has d ''center_point'') docs) = Inr results"
    by blast
  let ?G = "\<lparr> features = map (\<lambda>item. addISO3166Props1 env (promote_bbox (getFeature env item)))
                                     (map fst results),
                      collection_bbox = None \<rparr>"
  let ?P = "GeoJSON_parse env (concat (map extent_points_spec (map fst results)))"
  from geojsonifyPlaces_eq [OF r] assms
  have "logs = replicate (length (filter (\<lambda>d. \<not> has d ''center_point'') docs)) Warn_no_center_point
              @ concat (map snd results) @ snd (computeBBox env ?G ?P)"
    by (simp add: Let_def)
  then show ?thesis
    by (simp add: transformer_lines_no_warning [OF results_logs [OF mapE_Inr [OF r]]]
        filter_none [OF computeBBox_logs])
qed

text \<open>C1, as stated, fails when lacking a center point includes a
  \<^verbatim>\<open>center_point\<close> that is \<^verbatim>\<open>null\<close>: the filter tests that the key
  exists, so the sample document is not dropped, and the call ends in a TypeError
  instead of a collection.\<close>

theorem null_center_point_counterexample:
  "has null_center_place ''center_point''
   \<and> dot null_center_place ''center_point'' = Inr JNull
   \<and> geojsonifyPlaces demo_env JNull [demo_place, null_center_place] = Inl TypeError"
  by (simp add: null_center_place_def demo_simps)

text \<open>C1, amended. A document lacks a center point when it does not own the key
  \<^verbatim>\<open>center_point\<close> (or is not an object). When the documents that own the key
  are all transformed, \<^verbatim>\<open>geojsonifyPlaces\<close> returns a collection whose features
  are exactly the features of those documents, in order: a document without the key has
  no feature and does not stop the call. The number of features is the number of
  documents minus the number of documents without the key, and one warning is logged for
  each of those.\<close>

theorem documents_without_center_point_dropped:
  assumes "mapE (geojsonifyPlace env params) (filter (\<lambda>d. has d ''center_point'') docs) =
             Inr results"
  shows "\<exists>geojson logs.
           geojsonifyPlaces env params docs = Inr (geojson, logs)
         \<and> map Inr (features geojson) =
             map (feature_of env params) (filter (\<lambda>d. has d ''center_point'') docs)
         \<and> length (features geojson) =
             length docs - length (filter (\<lambda>d. \<not> has d ''center_point'') docs)
         \<and> length (filter (\<lambda>l. l = Warn_no_center_point) logs) =
             length (filter (\<lambda>d. \<not> has d ''center_point'') docs)"
proof -
  from geojsonifyPlaces_eq [OF assms] obtain geojson logs where
    run: "geojsonifyPlaces env params docs = Inr (geojson, logs)"
    by (simp add: Let_def)
  have f: "map Inr (features geojson) =
           map (feature_of env params) (filter (\<lambda>d. has d ''center_point'') docs)"
    using geojsonifyPlaces_features [OF run] by simp
  then have "length (features geojson) = length (filter (\<lambda>d. has d ''center_point'') docs)"
    using length_map by metis
  then have n: "length (features geojson) =
           length docs - length (filter (\<lambda>d. \<not> has d ''center_point'') docs)"
    by (simp add: length_filter_split [of "\<lambda>d. has d ''center_point''"])
  have "length (filter (\<lambda>l. l = Warn_no_center_point) logs) =
           length (filter (\<lambda>d. \<not> has d ''center_point'') docs)"
    by (simp add: geojsonifyPlaces_warnings [OF run])
  with run f n show ?thesis by blast
qed

theorem documents_without_center_point_dropped_witness:
  "mapE (geojsonifyPlace demo_env JNull) (filter (\<lambda>d. has d ''center_point'') demo_docs2) =
     Inr [(demo_item2, [Warn_no_name_default (JStr ''wof:locality:7'')]),
          (demo_item, demo_item_logs)]
   \<and> geojsonifyPlaces demo_env JNull demo_docs2 =
       Inr (demo_collection2,
            demo_logs2 @ [Error_bbox (Thrown ''extent''),
                          Error_geojson (GeoJSON_parse demo_env demo_extent_points2)])
   \<and> map Inr (features demo_collection2) =
       map (feature_of demo_env JNull) [demo_place2, demo_place]
   \<and> length demo_docs2 = 4
   \<and> length (filter (\<lambda>d. \<not> has d ''center_point'') demo_docs2) = 2
   \<and> length (features demo_collection2) = 4 - 2
   \<and> length (filter (\<lambda>l. l = Warn_no_center_point)
               (demo_logs2 @ [Error_bbox (Thrown ''extent''),
                              Error_geojson (GeoJSON_parse demo_env demo_extent_points2)])) = 2"
proof -
  have n: "length demo_docs2 = 4"
    by (simp add: demo_docs2_def)
  from documents_without_center_point_dropped [OF demo_results2]
  obtain geojson logs where
    run: "geojsonifyPlaces demo_env JNull demo_docs2 = Inr (geojson, logs)"
    and f: "map Inr (features geojson) =
             map (feature_of demo_env JNull) (filter (\<lambda>d. has d ''center_point'') demo_docs2)"
    and c: "length (features geojson) =
             length demo_docs2 - length (filter (\<lambda>d. \<not> has d ''center_point'') demo_docs2)"
    and w: "length (filter (\<lambda>l. l = Warn_no_center_point) logs) =
             length (filter (\<lambda>d. \<not> has d ''center_point'') demo_docs2)"
    by blast
  from run demo_run2 have g: "geojson = demo_collection2"
    and l: "logs = demo_logs2 @ [Error_bbox (Thrown ''extent''),
                          Error_geojson (GeoJSON_parse demo_env demo_extent_points2)]"
    by simp_all
  have f': "map Inr (features demo_collection2) =
       map (feature_of demo_env JNull) [demo_place2, demo_place]"
    using f unfolding g demo_kept2 .
  have c': "length (features demo_collection2) = 4 - 2"
    using c unfolding g demo_dropped2 n .
  have w': "length (filter (\<lambda>l. l = Warn_no_center_point)
               (demo_logs2 @ [Error_bbox (Thrown ''extent''),
                              Error_geojson (GeoJSON_parse demo_env demo_extent_points2)])) = 2"
    using w unfolding l demo_dropped2 .
  from demo_results2 demo_run2 f' n demo_dropped2 c' w' show ?thesis
    by blast
qed



section \<open>Bounding boxes\<close>

lemma bbox_addISO3166Props1: "bbox (addISO3166Props1 env f) = bbox f"
  by (simp add: addISO3166Props1_def Let_def split: jsval.splits)

lemma geometry_addISO3166Props1: "geometry (addISO3166Props1 env f) = geometry f"
  by (simp add: addISO3166Props1_def Let_def split: jsval.splits)

lemma properties_addISO3166Props1:
  "AList.delete ''country_code'' (properties (addISO3166Props1 env f)) =
   AList.delete ''country_code'' (properties f)"
  by (simp add: addISO3166Props1_def Let_def delete_update_same split: jsval.splits)

lemma map_of_addISO3166Props1:
  "k \<noteq> ''country_code'' \<Longrightarrow>
   map_of (properties (addISO3166Props1 env f)) k = map_of (properties f) k"
  by (simp add: addISO3166Props1_def Let_def update_conv' split: jsval.splits)

text \<open>C2. Let the assembler return a collection. Feature by feature, compare what
  \<^verbatim>\<open>GeoJSON.parse\<close> built (before the promotion) with the final feature: when the
  properties carried a bounding box, the final feature has the top-level
  \<^verbatim>\<open>bbox\<close> [min_lon, min_lat, max_lon, max_lat] read from that box; and in
  every case the final properties have no \<^verbatim>\<open>bounding_box\<close> key.\<close>

theorem bbox_promoted_after_assembly:
  assumes "geojsonifyPlaces env params docs = Inr (geojson, logs)"
      and "mapE (geojsonifyPlace env params) (fst (filter_center_point docs)) = Inr results"
  shows "list_all2
           (\<lambda>pre post.
              (truthy (lookup (properties pre) ''bounding_box'') \<longrightarrow>
                 bbox post =
                   Some (JArr (map (lodash_get (lookup (properties pre) ''bounding_box''))
                                   [''min_lon'', ''min_lat'', ''max_lon'', ''max_lat''])))
              \<and> map_of (properties post) ''bounding_box'' = None)
           (features (GeoJSON_parse env (map fst results)))
           (features geojson)"
proof -
  from assms(2) have r: "mapE (geojsonifyPlace env params)
      (filter (\<lambda>d. has d ''center_point'') docs) = Inr results"
    by (simp add: filter_center_point_eq)
  from geojsonifyPlaces_eq [OF r] assms(1)
  have "features geojson =
        map (\<lambda>item. addISO3166Props1 env (promote_bbox (getFeature env item))) (map fst results)"
    by (auto simp: Let_def features_computeBBox)
  then show ?thesis
    by (simp add: GeoJSON_parse_def list_all2_map1 list_all2_map2 list_all2_same
        bbox_addISO3166Props1 map_of_addISO3166Props1 promote_bbox_def Let_def delete_conv')
qed

theorem bbox_promoted_after_assembly_witness:
  "geojsonifyPlaces demo_env JNull demo_docs = Inr (demo_collection, demo_logs)
   \<and> mapE (geojsonifyPlace demo_env JNull) (fst (filter_center_point demo_docs)) =
       Inr [(demo_item, demo_item_logs)]
   \<and> lookup (properties (getFeature demo_env demo_item)) ''bounding_box'' = demo_bounding_box
   \<and> truthy demo_bounding_box
   \<and> bbox demo_feature =
       Some (JArr (map (lodash_get demo_bounding_box)
                       [''min_lon'', ''min_lat'', ''max_lon'', ''max_lat'']))
   \<and> map_of (properties demo_feature) ''bounding_box'' = None"
proof -
  have b: "lookup (properties (getFeature demo_env demo_item)) ''bounding_box'' = demo_bounding_box"
    by (simp add: getFeature_def demo_item_def demo_before_def lookup_def)
  have t: "truthy demo_bounding_box"
    by (simp add: demo_bounding_box_def)
  from bbox_promoted_after_assembly [OF demo_run demo_results] b t
  have "bbox demo_feature =
       Some (JArr (map (lodash_get demo_bounding_box)
                       [''min_lon'', ''min_lat'', ''max_lon'', ''max_lat'']))
   \<and> map_of (properties demo_feature) ''bounding_box'' = None"
    by (simp add: GeoJSON_parse_def demo_collection_def)
  with demo_run demo_results b t show ?thesis by blast
qed

text \<open>C5, as stated, fails on the empty sequence it names: for a collection
  without points \<^verbatim>\<open>extent\<close> returns \<^verbatim>\<open>null\<close> and does not throw, so
  nothing is logged.\<close>

theorem empty_extent_counterexample:
  "extractExtentPoints [] = Inr []
   \<and> extent demo_env (GeoJSON_parse demo_env []) = Inr JNull
   \<and> geojsonifyPlaces demo_env JNull [] =
       Inr (\<lparr> features = [], collection_bbox = None \<rparr>, [])"
  by (simp add: demo_simps)

text \<open>C5, amended. When every surviving document was transformed, the assembler
  returns a collection whatever \<^verbatim>\<open>extent\<close> does with the extent points. If
  \<^verbatim>\<open>extent\<close> throws, the error and the points are the last two lines of the
  log and the collection has no top-level \<^verbatim>\<open>bbox\<close>. If it returns a falsy
  value, nothing is logged and the collection has no top-level \<^verbatim>\<open>bbox\<close>.
  If it returns a truthy value, nothing is logged and that value is the
  \<^verbatim>\<open>bbox\<close>.\<close>

theorem bbox_computation_outcomes:
  assumes "mapE (geojsonifyPlace env params) (filter (\<lambda>d. has d ''center_point'') docs) =
             Inr results"
      and "extractExtentPoints (map fst results) = Inr extentPoints"
  shows "\<exists>geojson logs.
           geojsonifyPlaces env params docs =
             Inr (geojson,
                  logs @ (case extent env (GeoJSON_parse env extentPoints) of
                            Inl e \<Rightarrow> [Error_bbox e,
                                      Error_geojson (GeoJSON_parse env extentPoints)]
                          | Inr b \<Rightarrow> []))
         \<and> filter is_bbox_error logs = []
         \<and> collection_bbox geojson =
             (case extent env (GeoJSON_parse env extentPoints) of
                Inl e \<Rightarrow> None
              | Inr b \<Rightarrow> if truthy b then Some b else None)"
proof -
  from assms(2) have p: "extentPoints = concat (map extent_points_spec (map fst results))"
    by (simp add: extractExtentPoints_def extentPoints_reduce_eq)
  let ?logs = "replicate (length (filter (\<lambda>d. \<not> has d ''center_point'') docs))
                 Warn_no_center_point @ concat (map snd results)"
  have "filter is_bbox_error ?logs = []"
    by (simp add: transformer_lines_no_bbox_error [OF results_logs [OF mapE_Inr [OF assms(1)]]])
  moreover have "\<exists>geojson.
           geojsonifyPlaces env params docs =
             Inr (geojson,
                  ?logs @ (case extent env (GeoJSON_parse env extentPoints) of
                            Inl e \<Rightarrow> [Error_bbox e,
                                      Error_geojson (GeoJSON_parse env extentPoints)]
                          | Inr b \<Rightarrow> []))
         \<and> collection_bbox geojson =
             (case extent env (GeoJSON_parse env extentPoints) of
                Inl e \<Rightarrow> None
              | Inr b \<Rightarrow> if truthy b then Some b else None)"
    unfolding p
    by (simp add: geojsonifyPlaces_eq [OF assms(1)] Let_def computeBBox_def split: sum.splits)
  ultimately show ?thesis by blast
qed

theorem bbox_computation_outcomes_witness:
  "mapE (geojsonifyPlace demo_env JNull) (filter (\<lambda>d. has d ''center_point'') demo_docs2) =
     Inr [(demo_item2, [Warn_no_name_default (JStr ''wof:locality:7'')]),
          (demo_item, demo_item_logs)]
   \<and> extractExtentPoints
       (map fst [(demo_item2, [Warn_no_name_default (JStr ''wof:locality:7'')]),
                 (demo_item, demo_item_logs)]) = Inr demo_extent_points2
   \<and> extent demo_env (GeoJSON_parse demo_env demo_extent_points2) = Inl (Thrown ''extent'')
   \<and> (\<exists>geojson logs.
         geojsonifyPlaces demo_env JNull demo_docs2 =
           Inr (geojson,
                logs @ [Error_bbox (Thrown ''extent''),
                        Error_geojson (GeoJSON_parse demo_env demo_extent_points2)])
         \<and> filter is_bbox_error logs = []
         \<and> collection_bbox geojson = None)
   \<and> extent demo_env (GeoJSON_parse demo_env []) = Inr JNull
   \<and> (\<exists>geojson logs.
         geojsonifyPlaces demo_env JNull [] = Inr (geojson, logs)
         \<and> filter is_bbox_error logs = []
         \<and> collection_bbox geojson = None)
   \<and> extent demo_env_box (GeoJSON_parse demo_env_box demo_extent_points2) = Inr demo_box
   \<and> truthy demo_box
   \<and> (\<exists>geojson logs.
         geojsonifyPlaces demo_env_box JNull demo_docs2 = Inr (geojson, logs)
         \<and> filter is_bbox_error logs = []
         \<and> collection_bbox geojson = Some demo_box)"
proof -
  have e: "extent demo_env (GeoJSON_parse demo_env demo_extent_points2) = Inl (Thrown ''extent'')"
    by (simp add: demo_env_def GeoJSON_parse_def demo_extent_points2_def)
  have r0: "mapE (geojsonifyPlace demo_env JNull) (filter (\<lambda>d. has d ''center_point'') []) =
              Inr []"
    by simp
  have p0: "extractExtentPoints (map fst ([] :: (props \<times> log list) list)) = Inr []"
    by (simp add: extractExtentPoints_def)
  have e0: "extent demo_env (GeoJSON_parse demo_env []) = Inr JNull"
    by (simp add: demo_env_def GeoJSON_parse_def)
  have rb: "mapE (geojsonifyPlace demo_env_box JNull)
              (filter (\<lambda>d. has d ''center_point'') demo_docs2) =
            Inr [(demo_item2, [Warn_no_name_default (JStr ''wof:locality:7'')]),
                 (demo_item, demo_item_logs)]"
    by (simp add: demo_kept2) (simp add: demo_env_box_def demo2_simps demo_simps)
  have eb: "extent demo_env_box (GeoJSON_parse demo_env_box demo_extent_points2) = Inr demo_box"
    by (simp add: demo_env_box_def)
  have tb: "truthy demo_box"
    by (simp add: demo_box_def)
  from bbox_computation_outcomes [OF demo_results2 demo_points2]
  have a: "\<exists>geojson logs.
         geojsonifyPlaces demo_env JNull demo_docs2 =
           Inr (geojson,
                logs @ [Error_bbox (Thrown ''extent''),
                        Error_geojson (GeoJSON_parse demo_env demo_extent_points2)])
         \<and> filter is_bbox_error logs = []
         \<and> collection_bbox geojson = None"
    by (simp add: e)
  from bbox_computation_outcomes [OF r0 p0]
  have b: "\<exists>geojson logs.
         geojsonifyPlaces demo_env JNull [] = Inr (geojson, logs)
         \<and> filter is_bbox_error logs = []
         \<and> collection_bbox geojson = None"
    by (simp add: e0)
  from bbox_computation_outcomes [OF rb demo_points2]
  have c: "\<exists>geojson logs.
         geojsonifyPlaces demo_env_box JNull demo_docs2 = Inr (geojson, logs)
         \<and> filter is_bbox_error logs = []
         \<and> collection_bbox geojson = Some demo_box"
    by (simp add: eb tb)
  from a b c demo_results2 demo_points2 e e0 eb tb show ?thesis by blast
qed

section \<open>Country codes\<close>

text \<open>C4. Feature by feature through \<^verbatim>\<open>addISO3166PropsPerFeature\<close>, which is total:
  take \<^verbatim>\<open>country_a\<close>, else \<^verbatim>\<open>dependency_a\<close>, else the empty string. When
  that value is a non-empty string that the normalizer resolves to a two-character
  alpha-2 code, \<^verbatim>\<open>country_code\<close> is that code afterwards; in every other case the
  feature is returned as it was.\<close>

theorem country_code_set_iff_resolved:
  "list_all2
     (\<lambda>f f'.
        case country_code_of env
               (if truthy (lookup (properties f) ''country_a'')
                then lookup (properties f) ''country_a''
                else if truthy (lookup (properties f) ''dependency_a'')
                then lookup (properties f) ''dependency_a''
                else JStr []) of
          Some a \<Rightarrow> map_of (properties f') ''country_code'' = Some (JStr a)
        | None \<Rightarrow> f' = f)
     (features geojson)
     (features (addISO3166PropsPerFeature env geojson))"
  by (simp add: addISO3166PropsPerFeature_def list_all2_map2 list_all2_same
      addISO3166Props1_def country_code_of_def js_or_def Let_def update_conv'
      split: jsval.splits)

theorem country_code_set_iff_resolved_witness:
  "map (\<lambda>f. map_of (properties f) ''country_code'')
       (features (addISO3166PropsPerFeature demo_env
                    \<lparr> features = iso_features, collection_bbox = None \<rparr>)) =
     [Some (JStr ''US''), Some (JStr ''US''), Some (JStr ''US''), None, None, Some JUndefined]
   \<and> drop 3 (features (addISO3166PropsPerFeature demo_env
                         \<lparr> features = iso_features, collection_bbox = None \<rparr>)) =
     drop 3 iso_features"
  using country_code_set_iff_resolved
          [of demo_env "\<lparr> features = iso_features, collection_bbox = None \<rparr>"]
  by (simp add: addISO3166PropsPerFeature_def iso_features_def country_code_of_def
      demo_env_def lookup_def)

text \<open>C10. The country-code step leaves the collection's own \<^verbatim>\<open>bbox\<close> alone and,
  in every feature, the geometry, the top-level \<^verbatim>\<open>bbox\<close> and all properties
  other than \<^verbatim>\<open>country_code\<close>, their order included.\<close>

theorem country_code_step_frame:
  "collection_bbox (addISO3166PropsPerFeature env geojson) = collection_bbox geojson
   \<and> list_all2
       (\<lambda>f f'. geometry f' = geometry f \<and> bbox f' = bbox f
          \<and> AList.delete ''country_code'' (properties f') =
            AList.delete ''country_code'' (properties f))
       (features geojson)
       (features (addISO3166PropsPerFeature env geojson))"
  by (simp add: addISO3166PropsPerFeature_def list_all2_map2 list_all2_same
      bbox_addISO3166Props1 geometry_addISO3166Props1 properties_addISO3166Props1)

section \<open>The addendum\<close>

lemma decode_namespaces_warnings:
  "snd (decode_namespaces env gid ns acc) =
     map (Warn_addendum_decode gid) (failed_namespaces env ns)"
  by (induction ns arbitrary: acc)
     (auto simp: failed_namespaces_def split_beta split: sum.splits)

lemma decoded_namespaces_fresh:
  "k \<notin> fst ` set ns \<Longrightarrow> map_of (decoded_namespaces env ns) k = None"
  by (induction ns) (auto simp: decoded_namespaces_def split: sum.splits)

lemma decode_namespaces_map:
  "distinct (map fst ns) \<Longrightarrow> ''__proto__'' \<notin> fst ` set ns \<Longrightarrow>
   map_of (fst (decode_namespaces env gid ns acc)) k' =
     (case map_of (decoded_namespaces env ns) k' of
        Some v \<Rightarrow> Some v
      | None \<Rightarrow> map_of acc k')"
proof (induction ns arbitrary: acc)
  case Nil
  then show ?case by (simp add: decoded_namespaces_def)
next
  case (Cons p ns)
  obtain k blob where p: "p = (k, blob)" by (cases p)
  from Cons.prems p have d: "distinct (map fst ns)" and k: "k \<notin> fst ` set ns"
    and n: "''__proto__'' \<notin> fst ` set ns" and kp: "k \<noteq> ''__proto__''"
    by auto
  show ?case
  proof (cases "decode env blob")
    case (Inl e)
    with Cons.IH [OF d n] p show ?thesis
      by (simp add: decoded_namespaces_def split_beta)
  next
    case (Inr v)
    have tail: "decoded_namespaces env ((k, blob) # ns) = (k, v) # decoded_namespaces env ns"
      using Inr by (simp add: decoded_namespaces_def)
    from Cons.IH [OF d n, of "obj_set k v acc"] Inr kp
      decoded_namespaces_fresh [OF k, of env]
    show ?thesis
      unfolding p by (auto simp: tail map_of_obj_set split: option.splits)
  qed
qed

lemma geojsonifyPlace_before_addendum:
  "geojsonifyPlace env params place =
     bindE (before_addendum env params place) (\<lambda>(doc, logs1).
     bindE (add_addendum env place doc) (\<lambda>(doc, logs2).
     bindE (add_debug place doc) (\<lambda>doc.
     Inr (doc, logs1 @ logs2))))"
  by (simp add: geojsonifyPlace_def before_addendum_def bindE_def split_beta split: sum.splits)

lemma add_debug_other:
  "add_debug place doc = Inr doc' \<Longrightarrow> k \<noteq> ''debug'' \<Longrightarrow> map_of doc' k = map_of doc k"
  by (auto simp: add_debug_def bindE_Inr_iff update_conv' split: if_splits)

lemma add_debug_total: "dot place ''debug'' = Inr d \<Longrightarrow> \<exists>doc'. add_debug place doc = Inr doc'"
  by (simp add: add_debug_def)

text \<open>For an addendum object with distinct namespaces, none of them
  \<^verbatim>\<open>__proto__\<close>: once the transformer reaches the addendum block with a document
  that has no \<^verbatim>\<open>addendum\<close> key, it returns a record whatever the decoder
  does. One warning is logged for each namespace whose decode throws, and the record's
  \<^verbatim>\<open>addendum\<close> maps exactly the namespaces that decode to their decoded values,
  or is absent when none decodes.\<close>

lemma addendum_of_ordinary_namespaces:
  assumes "has place ''addendum''"
      and "dot place ''addendum'' = Inr (JObj ns)"
      and "distinct (map fst ns)"
      and "''__proto__'' \<notin> fst ` set ns"
      and "before_addendum env params place = Inr (doc1, logs1)"
      and "map_of doc1 ''addendum'' = None"
  shows "\<exists>doc. geojsonifyPlace env params place =
                 Inr (doc, logs1 @ map (Warn_addendum_decode (lookup doc1 ''gid''))
                                      (failed_namespaces env ns))
             \<and> (if decoded_namespaces env ns = [] then map_of doc ''addendum'' = None
                 else \<exists>a. map_of doc ''addendum'' = Some (JObj a)
                        \<and> map_of a = map_of (decoded_namespaces env ns))"
proof -
  let ?a = "fst (decode_namespaces env (lookup doc1 ''gid'') ns [])"
  let ?doc2 = "if ?a \<noteq> [] then AList.update ''addendum'' (JObj ?a) doc1 else doc1"
  let ?logs2 = "map (Warn_addendum_decode (lookup doc1 ''gid'')) (failed_namespaces env ns)"
  have m: "map_of ?a = map_of (decoded_namespaces env ns)"
  proof
    fix k'
    show "map_of ?a k' = map_of (decoded_namespaces env ns) k'"
      using decode_namespaces_map [OF assms(3,4), of env "lookup doc1 ''gid''" "[]" k']
      by (simp split: option.splits)
  qed
  then have e: "?a = [] \<longleftrightarrow> decoded_namespaces env ns = []"
    by (metis map_of_eq_empty_iff)
  have a: "add_addendum env place doc1 = Inr (?doc2, ?logs2)"
    using assms(1,2) decode_namespaces_warnings [of env "lookup doc1 ''gid''" ns "[]"]
    by (simp add: add_addendum_def split_beta)
  from has_dot [OF assms(1)] obtain d where "dot place ''debug'' = Inr d" by blast
  from add_debug_total [OF this] obtain doc where d: "add_debug place ?doc2 = Inr doc" by blast
  from add_debug_other [OF d, of "''addendum''"] assms(6)
  have "map_of doc ''addendum'' = (if ?a = [] then None else Some (JObj ?a))"
    by (simp add: update_conv')
  with m e have "if decoded_namespaces env ns = [] then map_of doc ''addendum'' = None
                 else \<exists>a. map_of doc ''addendum'' = Some (JObj a)
                        \<and> map_of a = map_of (decoded_namespaces env ns)"
    by auto
  moreover have "geojsonifyPlace env params place = Inr (doc, logs1 @ ?logs2)"
    using assms(5) a d by (simp add: geojsonifyPlace_before_addendum)
  ultimately show ?thesis by blast
qed

text \<open>C3. The namespace \<^verbatim>\<open>__proto__\<close> is lost: its blob decodes, nothing is
  logged, and the record has no \<^verbatim>\<open>addendum\<close>, where the addendum of exactly the
  decoded namespaces would hold that namespace.\<close>

theorem addendum_proto_namespace_lost:
  "has proto_place ''addendum''
   \<and> dot proto_place ''addendum'' = Inr (JObj [(''__proto__'', JStr ''x'')])
   \<and> decoded_namespaces demo_env [(''__proto__'', JStr ''x'')] =
       [(''__proto__'', JObj [(''decoded'', JStr ''x'')])]
   \<and> failed_namespaces demo_env [(''__proto__'', JStr ''x'')] = []
   \<and> geojsonifyPlace demo_env JNull proto_place =
       Inr ([(''id'', JStr ''101''), (''gid'', JStr ''osm:venue:101''), (''layer'', JStr ''venue''),
             (''source'', JStr ''osm''), (''source_id'', JStr ''101''),
             (''country_code'', JUndefined), (''bounding_box'', JUndefined),
             (''lat'', JNum 0x4024000000000000), (''lng'', JNum 0x4034000000000000),
             (''country_a'', JUndefined)],
            [Warn_no_name_default (JStr ''osm:venue:101'')])"
  by (simp add: proto_place_def decoded_namespaces_def failed_namespaces_def demo_simps)

section \<open>Identifier fields\<close>

lemma base_doc_InrD:
  assumes "base_doc env place = Inr doc0"
  shows "\<exists>place_id gid_components gid.
           dot place ''_id'' = Inr place_id
         \<and> decode_gid env place_id = Inr gid_components
         \<and> getGid env (lodash_get place ''source'') (lodash_get place ''layer'')
              (lodash_get gid_components ''id'') = Inr gid
         \<and> map_of doc0 ''id'' = Some (lodash_get gid_components ''id'')
         \<and> map_of doc0 ''gid'' = Some gid
         \<and> map_of doc0 ''layer'' = Some (lodash_get place ''layer'')
         \<and> map_of doc0 ''source'' = Some (lodash_get place ''source'')
         \<and> map_of doc0 ''source_id'' = Some (lodash_get gid_components ''id'')"
  using assms
  apply (simp add: base_doc_def bindE_Inr_iff)
  apply (elim exE conjE)
  apply (auto dest!: dot_InrD)
  done

lemma object_assign_other:
  "k \<notin> fst ` set details \<Longrightarrow> map_of (object_assign doc details) k = map_of doc k"
  unfolding object_assign_def
  by (induction details arbitrary: doc) (auto simp: map_of_obj_set)

lemma assign_name_other:
  "assign_name env place doc = Inr (doc', logs) \<Longrightarrow> k \<noteq> ''name'' \<Longrightarrow>
   map_of doc' k = map_of doc k"
  by (auto simp: assign_name_def bindE_Inr_iff update_conv' split: if_splits)

lemma add_addendum_other:
  "add_addendum env place doc = Inr (doc', logs) \<Longrightarrow> k \<noteq> ''addendum'' \<Longrightarrow>
   map_of doc' k = map_of doc k"
  by (auto simp: add_addendum_def bindE_Inr_iff update_conv' split_beta Let_def split: if_splits)

lemma geojsonifyPlace_core_key:
  assumes "geojsonifyPlace env params place = Inr (doc, logs)"
      and "collectDetails env params place = Inr details"
      and "k \<notin> fst ` set details"
      and "k \<noteq> ''name''" and "k \<noteq> ''addendum''" and "k \<noteq> ''debug''"
  shows "\<exists>doc0. base_doc env place = Inr doc0 \<and> map_of doc k = map_of doc0 k"
proof -
  from assms(1,2) obtain doc0 doc1 logs1 doc2 logs2 where
    b: "base_doc env place = Inr doc0"
    and n: "assign_name env place doc0 = Inr (doc1, logs1)"
    and a: "add_addendum env place (object_assign doc1 details) = Inr (doc2, logs2)"
    and d: "add_debug place doc2 = Inr doc"
    by (auto simp: geojsonifyPlace_def bindE_Inr_iff)
  have "map_of doc k = map_of doc0 k"
    using add_debug_other [OF d assms(6)] add_addendum_other [OF a assms(5)]
      object_assign_other [OF assms(3)] assign_name_other [OF n assms(4)]
    by simp
  with b show ?thesis by blast
qed

lemma base_doc_keys:
  "base_doc env place = Inr doc0 \<Longrightarrow>
   map fst doc0 = [''id'', ''gid'', ''layer'', ''source'', ''source_id'', ''country_code'',
                   ''bounding_box'', ''lat'', ''lng'']"
  by (clarsimp simp: base_doc_def bindE_Inr_iff)

text \<open>C7, as stated, fails: \<^verbatim>\<open>layer\<close> and \<^verbatim>\<open>source\<close> of the record are not
  those of the resolved identifier. The sample document's \<^verbatim>\<open>_id\<close> resolves to
  source \<^verbatim>\<open>wof\<close> and layer \<^verbatim>\<open>locality\<close>; its record has source
  \<^verbatim>\<open>osm\<close> and layer \<^verbatim>\<open>venue\<close>, the document's own members.\<close>

theorem identifier_fields_counterexample:
  "decode_gid demo_env (JStr ''wof:locality:7'') =
     Inr (JObj [(''source'', JStr ''wof''), (''layer'', JStr ''locality''), (''id'', JStr ''7'')])
   \<and> geojsonifyPlace demo_env JNull mismatched_place =
     Inr ([(''id'', JStr ''7''), (''gid'', JStr ''osm:venue:7''), (''layer'', JStr ''venue''),
           (''source'', JStr ''osm''), (''source_id'', JStr ''7''),
           (''country_code'', JUndefined), (''bounding_box'', JUndefined),
           (''lat'', JNum 0x4024000000000000), (''lng'', JNum 0x4034000000000000),
           (''country_a'', JUndefined)],
          [Warn_no_name_default (JStr ''osm:venue:7'')])"
  by (simp add: mismatched_place_def demo_simps)

text \<open>C7, amended. When the transformer returns a record and the detail collector
  supplies none of the five keys: \<^verbatim>\<open>id\<close> and \<^verbatim>\<open>source_id\<close> are the local id
  of the identifier that \<^verbatim>\<open>_id\<close> resolves to, \<^verbatim>\<open>layer\<close> and
  \<^verbatim>\<open>source\<close> are the document's own \<^verbatim>\<open>layer\<close> and \<^verbatim>\<open>source\<close>
  members, and \<^verbatim>\<open>gid\<close> is the global id built from the document's source and
  layer and the resolved local id.\<close>

theorem identifier_fields_seeded:
  assumes "geojsonifyPlace env params place = Inr (doc, logs)"
      and "dot place ''_id'' = Inr place_id"
      and "decode_gid env place_id = Inr gid_components"
      and "collectDetails env params place = Inr details"
      and "set [''id'', ''gid'', ''layer'', ''source'', ''source_id''] \<inter> fst ` set details = {}"
  shows "map_of doc ''id'' = Some (lodash_get gid_components ''id'')
       \<and> map_of doc ''source_id'' = Some (lodash_get gid_components ''id'')
       \<and> map_of doc ''layer'' = Some (lodash_get place ''layer'')
       \<and> map_of doc ''source'' = Some (lodash_get place ''source'')
       \<and> (\<exists>gid. getGid env (lodash_get place ''source'') (lodash_get place ''layer'')
                   (lodash_get gid_components ''id'') = Inr gid
                \<and> map_of doc ''gid'' = Some gid)"
proof -
  have k: "''id'' \<notin> fst ` set details" "''gid'' \<notin> fst ` set details"
    "''layer'' \<notin> fst ` set details" "''source'' \<notin> fst ` set details"
    "''source_id'' \<notin> fst ` set details"
    using assms(5) by auto
  from geojsonifyPlace_core_key [OF assms(1,4) k(1)] obtain doc0 where
    b: "base_doc env place = Inr doc0" and k1: "map_of doc ''id'' = map_of doc0 ''id''"
    by auto
  from geojsonifyPlace_core_key [OF assms(1,4) k(2)] b
  have k2: "map_of doc ''gid'' = map_of doc0 ''gid''" by auto
  from geojsonifyPlace_core_key [OF assms(1,4) k(3)] b
  have k3: "map_of doc ''layer'' = map_of doc0 ''layer''" by auto
  from geojsonifyPlace_core_key [OF assms(1,4) k(4)] b
  have k4: "map_of doc ''source'' = map_of doc0 ''source''" by auto
  from geojsonifyPlace_core_key [OF assms(1,4) k(5)] b
  have k5: "map_of doc ''source_id'' = map_of doc0 ''source_id''" by auto
  from base_doc_InrD [OF b] assms(2,3) k1 k2 k3 k4 k5 show ?thesis
    by auto
qed

theorem identifier_fields_seeded_witness:
  "geojsonifyPlace demo_env JNull mismatched_place =
     Inr ([(''id'', JStr ''7''), (''gid'', JStr ''osm:venue:7''), (''layer'', JStr ''venue''),
           (''source'', JStr ''osm''), (''source_id'', JStr ''7''),
           (''country_code'', JUndefined), (''bounding_box'', JUndefined),
           (''lat'', JNum 0x4024000000000000), (''lng'', JNum 0x4034000000000000),
           (''country_a'', JUndefined)],
          [Warn_no_name_default (JStr ''osm:venue:7'')])
   \<and> dot mismatched_place ''_id'' = Inr (JStr ''wof:locality:7'')
   \<and> decode_gid demo_env (JStr ''wof:locality:7'') =
       Inr (JObj [(''source'', JStr ''wof''), (''layer'', JStr ''locality''),
                  (''id'', JStr ''7'')])
   \<and> collectDetails demo_env JNull mismatched_place = Inr [(''country_a'', JUndefined)]
   \<and> set [''id'', ''gid'', ''layer'', ''source'', ''source_id'']
       \<inter> fst ` set [(''country_a'', JUndefined)] = {}
   \<and> getGid demo_env (JStr ''osm'') (JStr ''venue'') (JStr ''7'') = Inr (JStr ''osm:venue:7'')"
proof -
  let ?doc = "[(''id'', JStr ''7''), (''gid'', JStr ''osm:venue:7''), (''layer'', JStr ''venue''),
           (''source'', JStr ''osm''), (''source_id'', JStr ''7''),
           (''country_code'', JUndefined), (''bounding_box'', JUndefined),
           (''lat'', JNum 0x4024000000000000), (''lng'', JNum 0x4034000000000000),
           (''country_a'', JUndefined)]"
  let ?gc = "JObj [(''source'', JStr ''wof''), (''layer'', JStr ''locality''),
                  (''id'', JStr ''7'')]"
  have h1: "geojsonifyPlace demo_env JNull mismatched_place =
     Inr (?doc, [Warn_no_name_default (JStr ''osm:venue:7'')])"
    by (simp add: mismatched_place_def demo_simps)
  have h2: "dot mismatched_place ''_id'' = Inr (JStr ''wof:locality:7'')"
    by (simp add: mismatched_place_def lookup_def)
  have h3: "decode_gid demo_env (JStr ''wof:locality:7'') = Inr ?gc"
    by (simp add: demo_env_def)
  have h4: "collectDetails demo_env JNull mismatched_place = Inr [(''country_a'', JUndefined)]"
    by (simp add: demo_env_def mismatched_place_def lookup_def)
  have h5: "set [''id'', ''gid'', ''layer'', ''source'', ''source_id'']
       \<inter> fst ` set [(''country_a'', JUndefined)] = {}"
    by simp
  from identifier_fields_seeded [OF h1 h2 h3 h4 h5]
  have "getGid demo_env (JStr ''osm'') (JStr ''venue'') (JStr ''7'') = Inr (JStr ''osm:venue:7'')"
    by (simp add: mismatched_place_def lookup_def)
  with h1 h2 h3 h4 h5 show ?thesis by blast
qed

section \<open>The debug payload\<close>

text \<open>C8, as stated, fails: a \<^verbatim>\<open>debug\<close> member that exists with a falsy value is
  not copied. The sample document has \<^verbatim>\<open>debug: false\<close> and its record has no
  \<^verbatim>\<open>debug\<close> key.\<close>

theorem falsy_debug_counterexample:
  "has quiet_place ''debug''
   \<and> geojsonifyPlace demo_env JNull quiet_place =
     Inr ([(''id'', JStr ''101''), (''gid'', JStr ''osm:venue:101''), (''layer'', JStr ''venue''),
           (''source'', JStr ''osm''), (''source_id'', JStr ''101''),
           (''country_code'', JUndefined), (''bounding_box'', JUndefined),
           (''lat'', JNum 0x4024000000000000), (''lng'', JNum 0x4034000000000000),
           (''country_a'', JUndefined)],
          [Warn_no_name_default (JStr ''osm:venue:101'')])"
  by (simp add: quiet_place_def demo_simps)

text \<open>C8, amended. Let the transformer return a record. When the document's
  \<^verbatim>\<open>debug\<close> value is truthy, the record carries that value under
  \<^verbatim>\<open>debug\<close>, unchanged. When it is falsy (\<^verbatim>\<open>false\<close>, a zero,
  \<^verbatim>\<open>NaN\<close>, the empty string, \<^verbatim>\<open>null\<close>, \<^verbatim>\<open>undefined\<close>) it is not
  copied: the record has no \<^verbatim>\<open>debug\<close> key, unless the detail collector
  supplied one.\<close>

theorem debug_copied_iff_truthy:
  assumes "geojsonifyPlace env params place = Inr (doc, logs)"
      and "dot place ''debug'' = Inr d"
      and "collectDetails env params place = Inr details"
  shows "(truthy d \<longrightarrow> map_of doc ''debug'' = Some d)
       \<and> (\<not> truthy d \<and> ''debug'' \<notin> fst ` set details \<longrightarrow> map_of doc ''debug'' = None)"
proof -
  from assms(1,3) obtain doc0 doc1 logs1 doc2 logs2 where
    b: "base_doc env place = Inr doc0"
    and n: "assign_name env place doc0 = Inr (doc1, logs1)"
    and a: "add_addendum env place (object_assign doc1 details) = Inr (doc2, logs2)"
    and d: "add_debug place doc2 = Inr doc"
    by (auto simp: geojsonifyPlace_def bindE_Inr_iff)
  have "''debug'' \<notin> set (map fst doc0)"
    by (simp add: base_doc_keys [OF b])
  then have "map_of doc0 ''debug'' = None"
    by (simp add: map_of_eq_None_iff)
  then have "''debug'' \<notin> fst ` set details \<longrightarrow> map_of doc2 ''debug'' = None"
    using add_addendum_other [OF a, of "''debug''"]
      object_assign_other [of "''debug''" details doc1]
      assign_name_other [OF n, of "''debug''"]
    by simp
  with d assms(2) show ?thesis
    by (auto simp: add_debug_def update_conv' split: if_splits)
qed

theorem debug_copied_iff_truthy_witness:
  "geojsonifyPlace demo_env JNull demo_place = Inr (demo_item, demo_item_logs)
   \<and> dot demo_place ''debug'' = Inr (JStr ''on'')
   \<and> collectDetails demo_env JNull demo_place = Inr [(''country_a'', JStr ''USA'')]
   \<and> ''debug'' \<notin> fst ` set [(''country_a'', JStr ''USA'')]
   \<and> truthy (JStr ''on'')
   \<and> map_of demo_item ''debug'' = Some (JStr ''on'')
   \<and> dot quiet_place ''debug'' = Inr (JBool False)
   \<and> collectDetails demo_env JNull quiet_place = Inr [(''country_a'', JUndefined)]
   \<and> ''debug'' \<notin> fst ` set [(''country_a'', JUndefined)]
   \<and> \<not> truthy (JBool False)
   \<and> (\<exists>doc logs. geojsonifyPlace demo_env JNull quiet_place = Inr (doc, logs)
                  \<and> map_of doc ''debug'' = None)"
proof -
  have h2: "dot demo_place ''debug'' = Inr (JStr ''on'')"
    by (simp add: demo_place_def lookup_def)
  have h3: "collectDetails demo_env JNull demo_place = Inr [(''country_a'', JStr ''USA'')]"
    by (simp add: demo_env_def demo_place_def lookup_def)
  have h4: "''debug'' \<notin> fst ` set [(''country_a'', JStr ''USA'')]"
    by simp
  have q1: "\<exists>doc logs. geojsonifyPlace demo_env JNull quiet_place = Inr (doc, logs)"
    by (simp add: quiet_place_def demo_simps)
  have q2: "dot quiet_place ''debug'' = Inr (JBool False)"
    by (simp add: quiet_place_def lookup_def)
  have q3: "collectDetails demo_env JNull quiet_place = Inr [(''country_a'', JUndefined)]"
    by (simp add: demo_env_def quiet_place_def lookup_def)
  have q4: "''debug'' \<notin> fst ` set [(''country_a'', JUndefined)]"
    by simp
  from debug_copied_iff_truthy [OF demo_place_run h2 h3]
  have a: "map_of demo_item ''debug'' = Some (JStr ''on'')"
    by simp
  from q1 obtain doc logs where
    q: "geojsonifyPlace demo_env JNull quiet_place = Inr (doc, logs)" by blast
  from debug_copied_iff_truthy [OF q q2 q3]
  have "map_of doc ''debug'' = None"
    by simp
  with q have b: "\<exists>doc logs. geojsonifyPlace demo_env JNull quiet_place = Inr (doc, logs)
                  \<and> map_of doc ''debug'' = None"
    by blast
  from a b demo_place_run h2 h3 h4 q2 q3 q4 show ?thesis by simp
qed

end
